theory Spec2Isabelle
  imports Main "HOL-Library.AList" "HOL-Library.Sublist"
begin

section \<open>JavaScript values used by the front end\<close>

text \<open>
  A JavaScript string is modelled as a \<^typ>\<open>string\<close>: one \<^typ>\<open>char\<close> stands for one code
  unit, so \<^const>\<open>length\<close> is \<^verbatim>\<open>.length\<close>, \<^term>\<open>s = []\<close> is the falsy string and
  equality is \<^verbatim>\<open>===\<close>. The user-visible messages of the source are Vietnamese; they are
  written here without their diacritics. Numbers that the code only counts with
  (\<^verbatim>\<open>currentPage\<close>, \<^verbatim>\<open>totalPages\<close>, ...) are integers.
\<close>

definition digit_char :: "nat \<Rightarrow> char" where
  "digit_char d = ''0123456789'' ! d"

fun nat_toString :: "nat \<Rightarrow> string" where
  "nat_toString n =
     (if n < 10 then [digit_char n] else nat_toString (n div 10) @ [digit_char (n mod 10)])"

text \<open>\<^verbatim>\<open>Number.prototype.toString()\<close> on an integer (decimal digits, a sign when negative).\<close>

definition Number_toString :: "int \<Rightarrow> string" where
  "Number_toString i =
     (if i < 0 then CHR ''-'' # nat_toString (nat (- i)) else nat_toString (nat i))"

text \<open>
  \<^verbatim>\<open>String.prototype.toLowerCase\<close> is the host's Unicode lowering. The component below takes
  it as a parameter; \<open>toLowerCase_ascii\<close> is its restriction to ASCII letters, used to run
  the component on examples.
\<close>

definition toLowerCase_ascii :: "string \<Rightarrow> string" where
  "toLowerCase_ascii s =
     map (\<lambda>c. case map_of (zip ''ABCDEFGHIJKLMNOPQRSTUVWXYZ'' ''abcdefghijklmnopqrstuvwxyz'') c of
                 None \<Rightarrow> c | Some l \<Rightarrow> l) s"

text \<open>\<^verbatim>\<open>s.includes(t)\<close>: \<open>t\<close> occurs in \<open>s\<close> as a contiguous run.\<close>

definition String_includes :: "string \<Rightarrow> string \<Rightarrow> bool" where
  "String_includes s t = sublist t s"

text \<open>\<^verbatim>\<open>a || b\<close> on a possibly missing string: the first operand unless it is falsy.\<close>

definition or_default :: "string option \<Rightarrow> string \<Rightarrow> string" where
  "or_default a d = (case a of None \<Rightarrow> d | Some s \<Rightarrow> if s = [] then d else s)"


section \<open>HTTP requests, the browser and the HttpClient of AppModule\<close>

record LoginRequest =
  username :: string
  password :: string

record AuthResponse =
  access_token :: string
  refresh_token :: string
  expire_access_token :: string
  expire_refresh_token :: string
  ip :: string

datatype http_method = GET | POST

datatype http_body = NoBody | LoginBody LoginRequest

record HttpRequest =
  req_method :: http_method
  url :: string
  params :: "(string \<times> string) list"
  headers :: "(string \<times> string) list"
  body :: http_body

text \<open>
  \<^verbatim>\<open>HttpErrorResponse\<close>: the status and \<^verbatim>\<open>error.error?.message\<close> (absent when the body or its
  message is).
\<close>

record HttpErrorResponse =
  status :: int
  error_message :: "string option"

text \<open>
  Everything a component does outside its own fields is an effect, logged in the order it
  happens. \<open>localStorage\<close> is the browser's durable key-value store
  (\<^verbatim>\<open>getItem\<close> is application, \<^const>\<open>None\<close> is \<^verbatim>\<open>null\<close>); it is taken to accept
  every write.
\<close>

datatype effect =
    HttpSent HttpRequest
  | StorageSetItem string string
  | FormMarkAllAsTouched
  | ToastrWarning string string
  | ToastrSuccess string string
  | ToastrError string string
  | RouterNavigate "string list"
  | ConsoleError

record browser =
  localStorage :: "string \<rightharpoonup> string"
  effects :: "effect list"

definition emit :: "effect \<Rightarrow> browser \<Rightarrow> browser" where
  "emit e b = b\<lparr>effects := effects b @ [e]\<rparr>"

definition localStorage_setItem :: "string \<Rightarrow> string \<Rightarrow> browser \<Rightarrow> browser" where
  "localStorage_setItem k v b =
     emit (StorageSetItem k v) (b\<lparr>localStorage := (localStorage b)(k \<mapsto> v)\<rparr>)"

text \<open>
  \<^verbatim>\<open>app.module.ts\<close> imports \<^verbatim>\<open>HttpClientModule\<close> and declares \<^verbatim>\<open>providers: []\<close>: the
  multi-provider \<^verbatim>\<open>HTTP_INTERCEPTORS\<close> has no entry. An interceptor may read the browser
  and rewrites the outgoing request; the client runs the request through all of them before
  it puts it on the wire.
\<close>

type_synonym HttpInterceptor = "browser \<Rightarrow> HttpRequest \<Rightarrow> HttpRequest"

definition AppModule_HTTP_INTERCEPTORS :: "HttpInterceptor list" where
  "AppModule_HTTP_INTERCEPTORS = []"

definition HttpClient_send :: "HttpRequest \<Rightarrow> browser \<Rightarrow> browser" where
  "HttpClient_send req b =
     emit (HttpSent (fold (\<lambda>i r. i b r) AppModule_HTTP_INTERCEPTORS req)) b"

text \<open>
  The observer contract of an HttpClient observable: a 2xx answer hands its body to
  \<^verbatim>\<open>next\<close>, any other answer (or a transport failure) hands an \<^verbatim>\<open>HttpErrorResponse\<close> to
  \<^verbatim>\<open>error\<close>. The answer arrives after the subscribing method has returned.
\<close>

definition subscribe ::
  "HttpErrorResponse + 'r \<Rightarrow> ('r \<Rightarrow> 's \<Rightarrow> 's) \<Rightarrow> (HttpErrorResponse \<Rightarrow> 's \<Rightarrow> 's) \<Rightarrow> 's \<Rightarrow> 's" where
  "subscribe answer next error s =
     (case answer of Inr r \<Rightarrow> next r s | Inl e \<Rightarrow> error e s)"

definition HttpParams_set ::
  "string \<Rightarrow> string \<Rightarrow> (string \<times> string) list \<Rightarrow> (string \<times> string) list" where
  "HttpParams_set k v ps = AList.update k v ps"


text \<open>
  Modelled from the spec: what is left of the session state that the Auth State Publisher
  derives from the Token Store (4.2) when the store is the one the code writes: an access
  token is stored. The expiry check of 4.2 and the user cannot be read off it, since the
  code stores neither, and the repository sources modelled here have no publisher and keep
  no session object.
\<close>

definition session_authenticated :: "browser \<Rightarrow> bool" where
  "session_authenticated b = (localStorage b ''access_token'' \<noteq> None)"


section \<open>AuthServiceService\<close>

definition AuthServiceService_apiUrl :: string where
  "AuthServiceService_apiUrl = ''http://localhost:8080/api/v1/auth''"

text \<open>
  \<^verbatim>\<open>login(request)\<close> is \<^verbatim>\<open>this.http.post<AuthResponse>(`${this.apiUrl}/login`, request)\<close>:
  the cold observable of one POST, sent when it is subscribed to.
\<close>

definition AuthServiceService_login :: "LoginRequest \<Rightarrow> HttpRequest" where
  "AuthServiceService_login request =
     \<lparr>req_method = POST, url = AuthServiceService_apiUrl @ ''/login'', params = [],
      headers = [], body = LoginBody request\<rparr>"


section \<open>WarehouseService\<close>

text \<open>
  \<^verbatim>\<open>BaseURL.API_URL\<close> comes from \<^verbatim>\<open>environments/BaseURL\<close> and is a parameter here.
  \<^verbatim>\<open>getAll(page = 0, size = 10)\<close>: a missing argument takes its default.
\<close>

definition WarehouseService_apiUrl :: "string \<Rightarrow> string" where
  "WarehouseService_apiUrl API_URL = API_URL @ ''warehouse''"

definition WarehouseService_getAll :: "string \<Rightarrow> int option \<Rightarrow> int option \<Rightarrow> HttpRequest" where
  "WarehouseService_getAll API_URL page sz =
     (let p = (case page of None \<Rightarrow> 0 | Some n \<Rightarrow> n);
          s = (case sz of None \<Rightarrow> 10 | Some n \<Rightarrow> n);
          ps = HttpParams_set ''size'' (Number_toString s)
                 (HttpParams_set ''page'' (Number_toString p) [])
      in \<lparr>req_method = GET, url = WarehouseService_apiUrl API_URL, params = ps,
          headers = [], body = NoBody\<rparr>)"


section \<open>WarehouseComponent\<close>

text \<open>
  The fields of \<^verbatim>\<open>WareHouseResponse\<close> that the component reads. \<^verbatim>\<open>status\<close> and
  \<^verbatim>\<open>ware_house_type\<close> are string enums that may be missing (the label helpers take
  \<^verbatim>\<open>| undefined\<close>).
\<close>

record WareHouseResponse =
  name :: string
  code :: string
  address :: string
  wh_status :: "string option"
  ware_house_type :: "string option"

record PageResponse =
  content :: "WareHouseResponse list"
  total_elements :: int
  total_pages :: int

record ApiResponse =
  success :: bool
  data :: "PageResponse option"

datatype view_mode = Grid | List

record WarehouseComponent =
  wareHouses :: "WareHouseResponse list"
  selectedWarehouse :: "WareHouseResponse option"
  loading :: bool
  viewMode :: view_mode
  currentPage :: int
  pageSize :: int
  totalElements :: int
  totalPages :: int
  searchTerm :: string
  selectedStatus :: string
  selectedType :: string

definition WarehouseComponent_init :: WarehouseComponent where
  "WarehouseComponent_init =
     \<lparr>wareHouses = [], selectedWarehouse = None, loading = False, viewMode = Grid,
      currentPage = 0, pageSize = 10, totalElements = 0, totalPages = 0,
      searchTerm = [], selectedStatus = [], selectedType = []\<rparr>"

text \<open>
  \<^verbatim>\<open>loadWarehouses\<close> raises the loading flag and subscribes to \<^verbatim>\<open>getAll\<close>; its two
  callbacks run when the answer arrives.
\<close>

definition loadWarehouses ::
  "string \<Rightarrow> WarehouseComponent \<times> browser \<Rightarrow> WarehouseComponent \<times> browser" where
  "loadWarehouses API_URL = (\<lambda>(c, b).
     (c\<lparr>loading := True\<rparr>,
      HttpClient_send
        (WarehouseService_getAll API_URL (Some (currentPage c)) (Some (pageSize c))) b))"

definition loadWarehouses_next ::
  "ApiResponse \<Rightarrow> WarehouseComponent \<times> browser \<Rightarrow> WarehouseComponent \<times> browser" where
  "loadWarehouses_next response = (\<lambda>(c, b).
     ((case data response of
         Some d \<Rightarrow>
           if success response
           then c\<lparr>wareHouses := content d, totalElements := total_elements d,
                  totalPages := total_pages d, loading := False\<rparr>
           else c\<lparr>loading := False\<rparr>
       | None \<Rightarrow> c\<lparr>loading := False\<rparr>), b))"

definition loadWarehouses_error ::
  "HttpErrorResponse \<Rightarrow> WarehouseComponent \<times> browser \<Rightarrow> WarehouseComponent \<times> browser" where
  "loadWarehouses_error error = (\<lambda>(c, b). (c\<lparr>loading := False\<rparr>, emit ConsoleError b))"

definition ngOnInit_warehouse ::
  "string \<Rightarrow> WarehouseComponent \<times> browser \<Rightarrow> WarehouseComponent \<times> browser" where
  "ngOnInit_warehouse API_URL s = loadWarehouses API_URL s"

text \<open>
  \<^verbatim>\<open>getFilteredWarehouses\<close> returns the filtered array together with the component as the
  call leaves it. \<^verbatim>\<open>!this.searchTerm\<close> holds exactly for the empty string, and \<^verbatim>\<open>||\<close>
  evaluates its right operand only when the left one is false.
\<close>

definition matchesSearch :: "(string \<Rightarrow> string) \<Rightarrow> WarehouseComponent \<Rightarrow> WareHouseResponse \<Rightarrow> bool" where
  "matchesSearch lower c warehouse =
     (searchTerm c = [] \<or>
      String_includes (lower (name warehouse)) (lower (searchTerm c)) \<or>
      String_includes (lower (code warehouse)) (lower (searchTerm c)) \<or>
      String_includes (lower (address warehouse)) (lower (searchTerm c)))"

definition matchesStatus :: "WarehouseComponent \<Rightarrow> WareHouseResponse \<Rightarrow> bool" where
  "matchesStatus c warehouse =
     (selectedStatus c = [] \<or> wh_status warehouse = Some (selectedStatus c))"

definition matchesType :: "WarehouseComponent \<Rightarrow> WareHouseResponse \<Rightarrow> bool" where
  "matchesType c warehouse =
     (selectedType c = [] \<or> ware_house_type warehouse = Some (selectedType c))"

definition getFilteredWarehouses ::
  "(string \<Rightarrow> string) \<Rightarrow> WarehouseComponent \<Rightarrow> WareHouseResponse list \<times> WarehouseComponent" where
  "getFilteredWarehouses lower c =
     (filter (\<lambda>warehouse. matchesSearch lower c warehouse \<and> matchesStatus c warehouse \<and>
                           matchesType c warehouse) (wareHouses c), c)"

definition onPageChange ::
  "string \<Rightarrow> int \<Rightarrow> WarehouseComponent \<times> browser \<Rightarrow> WarehouseComponent \<times> browser" where
  "onPageChange API_URL page = (\<lambda>(c, b). loadWarehouses API_URL (c\<lparr>currentPage := page\<rparr>, b))"

definition nextPage ::
  "string \<Rightarrow> WarehouseComponent \<times> browser \<Rightarrow> WarehouseComponent \<times> browser" where
  "nextPage API_URL = (\<lambda>(c, b).
     if currentPage c < totalPages c - 1
     then loadWarehouses API_URL (c\<lparr>currentPage := currentPage c + 1\<rparr>, b)
     else (c, b))"

definition previousPage ::
  "string \<Rightarrow> WarehouseComponent \<times> browser \<Rightarrow> WarehouseComponent \<times> browser" where
  "previousPage API_URL = (\<lambda>(c, b).
     if currentPage c > 0
     then loadWarehouses API_URL (c\<lparr>currentPage := currentPage c - 1\<rparr>, b)
     else (c, b))"

text \<open>
  What happens to the page over time: the user clicks one of the two pager buttons, or
  the answer to a reload that an earlier call started arrives and is handed to the
  callbacks of \<^verbatim>\<open>loadWarehouses\<close>.
\<close>

datatype pager_call = NextPage | PreviousPage

datatype pager_event = Called pager_call | Answered "HttpErrorResponse + ApiResponse"

fun pager_step ::
  "string \<Rightarrow> pager_event \<Rightarrow> WarehouseComponent \<times> browser \<Rightarrow> WarehouseComponent \<times> browser" where
  "pager_step API_URL (Called NextPage) s = nextPage API_URL s"
| "pager_step API_URL (Called PreviousPage) s = previousPage API_URL s"
| "pager_step API_URL (Answered a) s = subscribe a loadWarehouses_next loadWarehouses_error s"

fun pager_run ::
  "string \<Rightarrow> pager_event list \<Rightarrow> WarehouseComponent \<times> browser \<Rightarrow> WarehouseComponent \<times> browser" where
  "pager_run API_URL [] s = s"
| "pager_run API_URL (ev # evs) s = pager_run API_URL evs (pager_step API_URL ev s)"

text \<open>
  \<open>pages_kept t evs\<close>: no answer among \<open>evs\<close> lowers the page count, which is \<open>t\<close> to begin
  with. Only an answer with \<^verbatim>\<open>success\<close> and \<^verbatim>\<open>data\<close> sets \<^verbatim>\<open>totalPages\<close>.
\<close>

fun pages_kept :: "int \<Rightarrow> pager_event list \<Rightarrow> bool" where
  "pages_kept t [] = True"
| "pages_kept t (Called k # evs) = pages_kept t evs"
| "pages_kept t (Answered (Inl e) # evs) = pages_kept t evs"
| "pages_kept t (Answered (Inr r) # evs) =
     (case data r of
        None \<Rightarrow> pages_kept t evs
      | Some d \<Rightarrow>
          if success r then t \<le> total_pages d \<and> pages_kept (total_pages d) evs
          else pages_kept t evs)"


section \<open>LoginComponent\<close>

text \<open>
  The reactive form built in \<^verbatim>\<open>ngOnInit\<close> has two text controls. A validator answers
  with an error or with nothing. \<^verbatim>\<open>Validators.required\<close> rejects the empty value;
  \<^verbatim>\<open>Validators.minLength(n)\<close> accepts the empty value and rejects a shorter non-empty one.
\<close>

datatype validation_error = Required | MinLength nat nat

definition Validators_required :: "string \<Rightarrow> validation_error option" where
  "Validators_required v = (if v = [] then Some Required else None)"

definition Validators_minLength :: "nat \<Rightarrow> string \<Rightarrow> validation_error option" where
  "Validators_minLength n v =
     (if v = [] then None
      else if length v < n then Some (MinLength n (length v)) else None)"

record LoginComponent =
  form_username :: string
  form_password :: string
  form_touched :: bool
  isLoading :: bool
  errorMessage :: string
  hidePassword :: bool
  submitted :: bool

definition LoginComponent_init :: LoginComponent where
  "LoginComponent_init =
     \<lparr>form_username = [], form_password = [], form_touched = False, isLoading = False,
      errorMessage = [], hidePassword = True, submitted = False\<rparr>"

definition ngOnInit :: "LoginComponent \<Rightarrow> LoginComponent" where
  "ngOnInit c = c\<lparr>form_username := [], form_password := [], form_touched := False\<rparr>"

text \<open>
  \<^verbatim>\<open>username: ['', Validators.required]\<close> and
  \<^verbatim>\<open>password: ['', [Validators.required, Validators.minLength(6)]]\<close>: a control is invalid
  when one of its validators answers with an error, the form when one of its controls is.
\<close>

definition username_errors :: "LoginComponent \<Rightarrow> validation_error list" where
  "username_errors c = List.map_filter (\<lambda>v. v (form_username c)) [Validators_required]"

definition password_errors :: "LoginComponent \<Rightarrow> validation_error list" where
  "password_errors c =
     List.map_filter (\<lambda>v. v (form_password c)) [Validators_required, Validators_minLength 6]"

definition loginForm_invalid :: "LoginComponent \<Rightarrow> bool" where
  "loginForm_invalid c = (username_errors c \<noteq> [] \<or> password_errors c \<noteq> [])"

definition togglePassword :: "LoginComponent \<Rightarrow> LoginComponent" where
  "togglePassword c = c\<lparr>hidePassword := \<not> hidePassword c\<rparr>"

definition msg_missing :: string where
  "msg_missing = ''Vui long dien day du thong tin dang nhap''"

definition msg_wrong :: string where
  "msg_wrong = ''Ten dang nhap hoac mat khau khong dung''"

text \<open>
  The two \<^verbatim>\<open>localStorage.setItem\<close> calls under the comment
  \<^verbatim>\<open>// Store tokens in localStorage\<close> (lines 65 to 67).
\<close>

definition store_tokens :: "AuthResponse \<Rightarrow> browser \<Rightarrow> browser" where
  "store_tokens response b =
     localStorage_setItem ''refresh_token'' (refresh_token response)
       (localStorage_setItem ''access_token'' (access_token response) b)"

text \<open>The \<^verbatim>\<open>next\<close> callback of \<^verbatim>\<open>onSubmit\<close> (lines 63 to 71).\<close>

definition onSubmit_next ::
  "AuthResponse \<Rightarrow> LoginComponent \<times> browser \<Rightarrow> LoginComponent \<times> browser" where
  "onSubmit_next response = (\<lambda>(c, b).
     (c\<lparr>isLoading := False\<rparr>,
      emit (RouterNavigate [''/dashboard''])
        (emit (ToastrSuccess ''Chao mung ban quay tro lai!'' ''Dang nhap thanh cong'')
          (store_tokens response b))))"

text \<open>The \<^verbatim>\<open>error\<close> callback of \<^verbatim>\<open>onSubmit\<close> (lines 72 to 80).\<close>

definition onSubmit_error ::
  "HttpErrorResponse \<Rightarrow> LoginComponent \<times> browser \<Rightarrow> LoginComponent \<times> browser" where
  "onSubmit_error error = (\<lambda>(c, b).
     (c\<lparr>errorMessage := msg_wrong, isLoading := False\<rparr>,
      emit (ToastrError (or_default (error_message error) msg_wrong) ''Dang nhap that bai'')
        (emit ConsoleError b)))"

text \<open>
  \<^verbatim>\<open>onSubmit\<close> up to and including the subscription. When the form is valid one request is
  in flight afterwards, and the answer of the backend reaches \<open>onSubmit_next\<close> or
  \<open>onSubmit_error\<close> through \<open>subscribe\<close>.
\<close>

definition onSubmit :: "LoginComponent \<times> browser \<Rightarrow> LoginComponent \<times> browser" where
  "onSubmit = (\<lambda>(c0, b).
     let c = c0\<lparr>submitted := True\<rparr> in
     if loginForm_invalid c
     then (c\<lparr>form_touched := True\<rparr>,
           emit (ToastrWarning msg_missing ''Thieu thong tin'') (emit FormMarkAllAsTouched b))
     else (c\<lparr>isLoading := True, errorMessage := []\<rparr>,
           HttpClient_send
             (AuthServiceService_login
                \<lparr>username = form_username c, password = form_password c\<rparr>) b))"


section \<open>AppRoutingModule\<close>











section \<open>Token Store, Auth State Publisher and logout\<close>

text \<open>
  Modelled from the spec: the Token Store (4.1), the Auth State Publisher (4.2) and
  \<^verbatim>\<open>logout()\<close> of the Auth Gateway (4.3) with the data they own (3). The repository
  sources modelled above have none of them: \<^verbatim>\<open>AuthServiceService\<close> has \<^verbatim>\<open>login\<close> only, and
  the login page writes \<open>localStorage\<close> itself.
\<close>

record TokenPair =
  accessToken :: string
  refreshToken :: string
  accessExpiry :: int
  refreshExpiry :: int

record UserInfo =
  user_id :: int
  user_name :: string
  email :: string
  fullName :: string

record SessionState =
  isAuthenticated :: bool
  user :: "UserInfo option"
  roles :: "string set"

text \<open>
  Modelled from the spec: the publisher owns the store, holds the current session state
  and broadcasts every state it sets; \<open>emitted\<close> is what a subscriber from the start has
  received, in order.
\<close>

record publisher =
  token_store :: "TokenPair option"
  current :: SessionState
  emitted :: "SessionState list"

text \<open>Modelled from the spec: \<^verbatim>\<open>save(pair)\<close> overwrites any existing pair (4.1).\<close>

definition TokenStore_save :: "TokenPair \<Rightarrow> publisher \<Rightarrow> publisher" where
  "TokenStore_save pair p = p\<lparr>token_store := Some pair\<rparr>"

text \<open>
  Modelled from the spec: \<^verbatim>\<open>load()\<close> returns the last saved pair, or null if never saved or
  cleared (4.1).
\<close>

definition TokenStore_load :: "publisher \<Rightarrow> TokenPair option" where
  "TokenStore_load p = token_store p"

text \<open>Modelled from the spec: \<^verbatim>\<open>clear()\<close> removes all stored credential data (4.1).\<close>

definition TokenStore_clear :: "publisher \<Rightarrow> publisher" where
  "TokenStore_clear p = p\<lparr>token_store := None\<rparr>"

text \<open>
  Modelled from the spec: emitting a state makes it the current value and hands it to the
  subscribers (4.2).
\<close>

definition publish :: "SessionState \<Rightarrow> publisher \<Rightarrow> publisher" where
  "publish st p = p\<lparr>current := st, emitted := emitted p @ [st]\<rparr>"

text \<open>
  Modelled from the spec: \<^verbatim>\<open>setAuthenticated(pair, user)\<close> instructs \<^verbatim>\<open>Token Store.save\<close>,
  then emits the new state (4.2); the roles come with the user.
\<close>

definition setAuthenticated :: "TokenPair \<Rightarrow> UserInfo \<Rightarrow> string set \<Rightarrow> publisher \<Rightarrow> publisher" where
  "setAuthenticated pair u rs p =
     publish \<lparr>isAuthenticated = True, user = Some u, roles = rs\<rparr> (TokenStore_save pair p)"

text \<open>
  Modelled from the spec: \<^verbatim>\<open>setUnauthenticated()\<close> instructs \<^verbatim>\<open>Token Store.clear\<close>, then
  emits \<^verbatim>\<open>SessionState{isAuthenticated:false, user:null, roles:{}}\<close> (4.2).
\<close>

definition setUnauthenticated :: "publisher \<Rightarrow> publisher" where
  "setUnauthenticated p =
     publish \<lparr>isAuthenticated = False, user = None, roles = {}\<rparr> (TokenStore_clear p)"

text \<open>
  Modelled from the spec: \<^verbatim>\<open>logout()\<close> invokes \<^verbatim>\<open>setUnauthenticated\<close>; the optional
  revocation call to the backend is left out (4.3).
\<close>

definition logout :: "publisher \<Rightarrow> publisher" where
  "logout p = setUnauthenticated p"


section \<open>The pager and the pages\<close>

definition pager_inv :: "WarehouseComponent \<Rightarrow> bool" where
  "pager_inv c = (0 \<le> currentPage c \<and> currentPage c \<le> max 0 (totalPages c - 1))"

lemma pager_step_nonneg:
  "0 \<le> currentPage (fst s) \<Longrightarrow> 0 \<le> currentPage (fst (pager_step API_URL ev s))"
proof (cases s)
  case (Pair c b)
  assume "0 \<le> currentPage (fst s)"
  with Pair show ?thesis
  proof (cases ev)
    case (Called k)
    with Pair \<open>0 \<le> currentPage (fst s)\<close> show ?thesis
      by (cases k) (auto simp: nextPage_def previousPage_def loadWarehouses_def)
  next
    case (Answered a)
    with Pair \<open>0 \<le> currentPage (fst s)\<close> show ?thesis
      by (auto simp: subscribe_def loadWarehouses_next_def loadWarehouses_error_def
            split: sum.splits option.splits)
  qed
qed

lemma pager_run_nonneg:
  "0 \<le> currentPage (fst s) \<Longrightarrow> 0 \<le> currentPage (fst (pager_run API_URL evs s))"
  by (induction evs arbitrary: s) (simp_all add: pager_step_nonneg)

lemma pager_call_inv:
  "pager_inv (fst s) \<Longrightarrow>
     pager_inv (fst (pager_step API_URL (Called k) s)) \<and>
     totalPages (fst (pager_step API_URL (Called k) s)) = totalPages (fst s)"
  by (cases s; cases k)
     (auto simp: pager_inv_def nextPage_def previousPage_def loadWarehouses_def)

lemma pager_failure_inv:
  "pager_inv (fst s) \<Longrightarrow>
     pager_inv (fst (pager_step API_URL (Answered (Inl e)) s)) \<and>
     totalPages (fst (pager_step API_URL (Answered (Inl e)) s)) = totalPages (fst s)"
  by (cases s) (simp add: pager_inv_def subscribe_def loadWarehouses_error_def)

lemma pager_answer_inv:
  assumes "pager_inv (fst s)" and "pages_kept (totalPages (fst s)) (Answered (Inr r) # evs)"
  shows "pager_inv (fst (pager_step API_URL (Answered (Inr r)) s)) \<and>
         pages_kept (totalPages (fst (pager_step API_URL (Answered (Inr r)) s))) evs"
  using assms
  by (cases s)
     (auto simp: pager_inv_def subscribe_def loadWarehouses_next_def split: option.splits if_splits)

lemma pager_run_inv:
  "pager_inv (fst s) \<Longrightarrow> pages_kept (totalPages (fst s)) evs \<Longrightarrow>
     pager_inv (fst (pager_run API_URL evs s))"
proof (induction evs arbitrary: s)
  case Nil
  then show ?case by simp
next
  case (Cons ev evs)
  show ?case
  proof (cases ev)
    case (Called k)
    from pager_call_inv [OF Cons.prems(1), of API_URL k]
    have "pager_inv (fst (pager_step API_URL ev s))"
      and "totalPages (fst (pager_step API_URL ev s)) = totalPages (fst s)"
      using Called by simp_all
    moreover from Cons.prems(2) Called have "pages_kept (totalPages (fst s)) evs"
      by simp
    ultimately show ?thesis
      using Cons.IH [of "pager_step API_URL ev s"] by simp
  next
    case (Answered a)
    show ?thesis
    proof (cases a)
      case (Inl e)
      from pager_failure_inv [OF Cons.prems(1), of API_URL e]
      have "pager_inv (fst (pager_step API_URL ev s))"
        and "totalPages (fst (pager_step API_URL ev s)) = totalPages (fst s)"
        using Answered Inl by simp_all
      moreover from Cons.prems(2) Answered Inl have "pages_kept (totalPages (fst s)) evs"
        by simp
      ultimately show ?thesis
        using Cons.IH [of "pager_step API_URL ev s"] by simp
    next
      case (Inr r)
      from Cons.prems(2) Answered Inr
      have "pages_kept (totalPages (fst s)) (Answered (Inr r) # evs)"
        by simp
      from pager_answer_inv [OF Cons.prems(1) this, of API_URL]
      show ?thesis
        using Cons.IH [of "pager_step API_URL ev s"] Answered Inr by simp
    qed
  qed
qed

text \<open>
  Claim C9, as the code has it. Started on page 0, any sequence of \<^verbatim>\<open>nextPage()\<close> and
  \<^verbatim>\<open>previousPage()\<close> calls, with the answers to the reloads arriving in between, leaves
  \<open>0 \<le> currentPage\<close>. It leaves \<open>currentPage \<le> totalPages - 1\<close> when \<open>totalPages \<ge> 1\<close> provided
  no answer has lowered \<^verbatim>\<open>totalPages\<close>. \<^verbatim>\<open>nextPage\<close> does nothing on the last page and
  \<^verbatim>\<open>previousPage\<close> nothing on the first.
\<close>

theorem pager_bounds:
  "currentPage c = 0 \<Longrightarrow>
     0 \<le> currentPage (fst (pager_run API_URL evs (c, b))) \<and>
     (pages_kept (totalPages c) evs \<longrightarrow>
      1 \<le> totalPages (fst (pager_run API_URL evs (c, b))) \<longrightarrow>
        currentPage (fst (pager_run API_URL evs (c, b)))
          \<le> totalPages (fst (pager_run API_URL evs (c, b))) - 1) \<and>
     nextPage API_URL (d\<lparr>currentPage := totalPages d - 1\<rparr>, b)
       = (d\<lparr>currentPage := totalPages d - 1\<rparr>, b) \<and>
     previousPage API_URL (d\<lparr>currentPage := 0\<rparr>, b) = (d\<lparr>currentPage := 0\<rparr>, b)"
proof -
  assume start: "currentPage c = 0"
  then have nonneg: "0 \<le> currentPage (fst (pager_run API_URL evs (c, b)))"
    using pager_run_nonneg [of "(c, b)" API_URL evs] by simp
  have bound: "currentPage (fst (pager_run API_URL evs (c, b)))
                 \<le> totalPages (fst (pager_run API_URL evs (c, b))) - 1"
    if kept: "pages_kept (totalPages c) evs"
      and some: "1 \<le> totalPages (fst (pager_run API_URL evs (c, b)))"
  proof -
    from start have "pager_inv (fst (c, b))"
      by (simp add: pager_inv_def)
    moreover from kept have "pages_kept (totalPages (fst (c, b))) evs"
      by simp
    ultimately have "pager_inv (fst (pager_run API_URL evs (c, b)))"
      by (rule pager_run_inv)
    with some show ?thesis
      by (simp add: pager_inv_def)
  qed
  have noop:
    "nextPage API_URL (d\<lparr>currentPage := totalPages d - 1\<rparr>, b)
       = (d\<lparr>currentPage := totalPages d - 1\<rparr>, b) \<and>
     previousPage API_URL (d\<lparr>currentPage := 0\<rparr>, b) = (d\<lparr>currentPage := 0\<rparr>, b)"
    by (simp add: nextPage_def previousPage_def)
  from nonneg bound noop show ?thesis
    by blast
qed

text \<open>
  A fresh page: the first load is answered with three pages, then next, next, next (each
  reload answered with three pages, the third click refused) and previous.
\<close>

theorem pager_bounds_witness:
  "currentPage (fst (ngOnInit_warehouse ''/api/''
       (WarehouseComponent_init, \<lparr>localStorage = Map.empty, effects = []\<rparr>))) = 0 \<and>
   pages_kept
     (totalPages (fst (ngOnInit_warehouse ''/api/''
       (WarehouseComponent_init, \<lparr>localStorage = Map.empty, effects = []\<rparr>))))
     [Answered (Inr \<lparr>success = True,
                    data = Some \<lparr>content = [], total_elements = 25, total_pages = 3\<rparr>\<rparr>),
      Called NextPage,
      Answered (Inr \<lparr>success = True,
                    data = Some \<lparr>content = [], total_elements = 25, total_pages = 3\<rparr>\<rparr>),
      Called NextPage,
      Answered (Inr \<lparr>success = True,
                    data = Some \<lparr>content = [], total_elements = 25, total_pages = 3\<rparr>\<rparr>),
      Called NextPage, Called PreviousPage] \<and>
   totalPages (fst (pager_run ''/api/''
     [Answered (Inr \<lparr>success = True,
                    data = Some \<lparr>content = [], total_elements = 25, total_pages = 3\<rparr>\<rparr>),
      Called NextPage,
      Answered (Inr \<lparr>success = True,
                    data = Some \<lparr>content = [], total_elements = 25, total_pages = 3\<rparr>\<rparr>),
      Called NextPage,
      Answered (Inr \<lparr>success = True,
                    data = Some \<lparr>content = [], total_elements = 25, total_pages = 3\<rparr>\<rparr>),
      Called NextPage, Called PreviousPage]
     (ngOnInit_warehouse ''/api/''
       (WarehouseComponent_init, \<lparr>localStorage = Map.empty, effects = []\<rparr>)))) = 3 \<and>
   currentPage (fst (pager_run ''/api/''
     [Answered (Inr \<lparr>success = True,
                    data = Some \<lparr>content = [], total_elements = 25, total_pages = 3\<rparr>\<rparr>),
      Called NextPage,
      Answered (Inr \<lparr>success = True,
                    data = Some \<lparr>content = [], total_elements = 25, total_pages = 3\<rparr>\<rparr>),
      Called NextPage,
      Answered (Inr \<lparr>success = True,
                    data = Some \<lparr>content = [], total_elements = 25, total_pages = 3\<rparr>\<rparr>),
      Called NextPage, Called PreviousPage]
     (ngOnInit_warehouse ''/api/''
       (WarehouseComponent_init, \<lparr>localStorage = Map.empty, effects = []\<rparr>)))) = 1"
proof -
  have h: "currentPage (WarehouseComponent_init\<lparr>loading := True\<rparr>) = 0"
    by (simp add: WarehouseComponent_init_def)
  show ?thesis
    using h pager_bounds [OF h, of "''/api/''"
      "[Answered (Inr \<lparr>success = True,
                    data = Some \<lparr>content = [], total_elements = 25, total_pages = 3\<rparr>\<rparr>),
        Called NextPage,
        Answered (Inr \<lparr>success = True,
                    data = Some \<lparr>content = [], total_elements = 25, total_pages = 3\<rparr>\<rparr>),
        Called NextPage,
        Answered (Inr \<lparr>success = True,
                    data = Some \<lparr>content = [], total_elements = 25, total_pages = 3\<rparr>\<rparr>),
        Called NextPage, Called PreviousPage]"
      "emit (HttpSent (WarehouseService_getAll ''/api/'' (Some 0) (Some 10)))
         \<lparr>localStorage = Map.empty, effects = []\<rparr>"]
    by (simp add: WarehouseComponent_init_def ngOnInit_warehouse_def nextPage_def
          previousPage_def loadWarehouses_def subscribe_def loadWarehouses_next_def
          HttpClient_send_def AppModule_HTTP_INTERCEPTORS_def)
qed

text \<open>
  The claim as written fails: a fresh page whose first load and first reload are answered
  with three pages, and whose second reload is answered with one page (rows were deleted
  meanwhile), stands on page index 2 of 1 page after next, next.
\<close>

theorem pager_bounds_counterexample:
  "currentPage (fst (ngOnInit_warehouse ''/api/''
       (WarehouseComponent_init, \<lparr>localStorage = Map.empty, effects = []\<rparr>))) = 0 \<and>
   currentPage (fst (pager_run ''/api/''
     [Answered (Inr \<lparr>success = True,
                    data = Some \<lparr>content = [], total_elements = 25, total_pages = 3\<rparr>\<rparr>),
      Called NextPage,
      Answered (Inr \<lparr>success = True,
                    data = Some \<lparr>content = [], total_elements = 25, total_pages = 3\<rparr>\<rparr>),
      Called NextPage,
      Answered (Inr \<lparr>success = True,
                    data = Some \<lparr>content = [], total_elements = 4, total_pages = 1\<rparr>\<rparr>)]
     (ngOnInit_warehouse ''/api/''
       (WarehouseComponent_init, \<lparr>localStorage = Map.empty, effects = []\<rparr>)))) = 2 \<and>
   totalPages (fst (pager_run ''/api/''
     [Answered (Inr \<lparr>success = True,
                    data = Some \<lparr>content = [], total_elements = 25, total_pages = 3\<rparr>\<rparr>),
      Called NextPage,
      Answered (Inr \<lparr>success = True,
                    data = Some \<lparr>content = [], total_elements = 25, total_pages = 3\<rparr>\<rparr>),
      Called NextPage,
      Answered (Inr \<lparr>success = True,
                    data = Some \<lparr>content = [], total_elements = 4, total_pages = 1\<rparr>\<rparr>)]
     (ngOnInit_warehouse ''/api/''
       (WarehouseComponent_init, \<lparr>localStorage = Map.empty, effects = []\<rparr>)))) = 1 \<and>
   \<not> (currentPage (fst (pager_run ''/api/''
     [Answered (Inr \<lparr>success = True,
                    data = Some \<lparr>content = [], total_elements = 25, total_pages = 3\<rparr>\<rparr>),
      Called NextPage,
      Answered (Inr \<lparr>success = True,
                    data = Some \<lparr>content = [], total_elements = 25, total_pages = 3\<rparr>\<rparr>),
      Called NextPage,
      Answered (Inr \<lparr>success = True,
                    data = Some \<lparr>content = [], total_elements = 4, total_pages = 1\<rparr>\<rparr>)]
     (ngOnInit_warehouse ''/api/''
       (WarehouseComponent_init, \<lparr>localStorage = Map.empty, effects = []\<rparr>))))
     \<le> totalPages (fst (pager_run ''/api/''
     [Answered (Inr \<lparr>success = True,
                    data = Some \<lparr>content = [], total_elements = 25, total_pages = 3\<rparr>\<rparr>),
      Called NextPage,
      Answered (Inr \<lparr>success = True,
                    data = Some \<lparr>content = [], total_elements = 25, total_pages = 3\<rparr>\<rparr>),
      Called NextPage,
      Answered (Inr \<lparr>success = True,
                    data = Some \<lparr>content = [], total_elements = 4, total_pages = 1\<rparr>\<rparr>)]
     (ngOnInit_warehouse ''/api/''
       (WarehouseComponent_init, \<lparr>localStorage = Map.empty, effects = []\<rparr>)))) - 1)"
  by (simp add: WarehouseComponent_init_def ngOnInit_warehouse_def nextPage_def
        previousPage_def loadWarehouses_def subscribe_def loadWarehouses_next_def
        HttpClient_send_def AppModule_HTTP_INTERCEPTORS_def)


section \<open>The warehouse filter\<close>

text \<open>
  Claim C10. \<^verbatim>\<open>getFilteredWarehouses\<close> returns a sub-list of \<^verbatim>\<open>wareHouses\<close> (its elements
  are elements of the loaded list, in the same relative order), leaves the component as it
  was, and returns the whole list when the search term, the status and the type are all
  empty. This holds whatever \<^verbatim>\<open>toLowerCase\<close> does.
\<close>

theorem getFilteredWarehouses_sublist:
  "subseq (fst (getFilteredWarehouses lower c)) (wareHouses c) \<and>
   set (fst (getFilteredWarehouses lower c)) \<subseteq> set (wareHouses c) \<and>
   snd (getFilteredWarehouses lower c) = c \<and>
   (searchTerm c = [] \<and> selectedStatus c = [] \<and> selectedType c = [] \<longrightarrow>
      fst (getFilteredWarehouses lower c) = wareHouses c)"
  by (simp add: getFilteredWarehouses_def matchesSearch_def matchesStatus_def matchesType_def)

theorem getFilteredWarehouses_sublist_witness:
  "(searchTerm (WarehouseComponent_init\<lparr>wareHouses :=
        [\<lparr>name = ''Kho Ha Noi'', code = ''HN-01'', address = ''12 Tran Phu'',
          wh_status = Some ''ACTIVE'', ware_house_type = Some ''MAIN''\<rparr>,
         \<lparr>name = ''Kho Sai Gon'', code = ''SG-02'', address = ''3 Le Loi'',
          wh_status = Some ''INACTIVE'', ware_house_type = None\<rparr>]\<rparr>) = [] \<and>
    selectedStatus (WarehouseComponent_init\<lparr>wareHouses :=
        [\<lparr>name = ''Kho Ha Noi'', code = ''HN-01'', address = ''12 Tran Phu'',
          wh_status = Some ''ACTIVE'', ware_house_type = Some ''MAIN''\<rparr>,
         \<lparr>name = ''Kho Sai Gon'', code = ''SG-02'', address = ''3 Le Loi'',
          wh_status = Some ''INACTIVE'', ware_house_type = None\<rparr>]\<rparr>) = [] \<and>
    selectedType (WarehouseComponent_init\<lparr>wareHouses :=
        [\<lparr>name = ''Kho Ha Noi'', code = ''HN-01'', address = ''12 Tran Phu'',
          wh_status = Some ''ACTIVE'', ware_house_type = Some ''MAIN''\<rparr>,
         \<lparr>name = ''Kho Sai Gon'', code = ''SG-02'', address = ''3 Le Loi'',
          wh_status = Some ''INACTIVE'', ware_house_type = None\<rparr>]\<rparr>) = []) \<and>
   fst (getFilteredWarehouses toLowerCase_ascii (WarehouseComponent_init\<lparr>wareHouses :=
        [\<lparr>name = ''Kho Ha Noi'', code = ''HN-01'', address = ''12 Tran Phu'',
          wh_status = Some ''ACTIVE'', ware_house_type = Some ''MAIN''\<rparr>,
         \<lparr>name = ''Kho Sai Gon'', code = ''SG-02'', address = ''3 Le Loi'',
          wh_status = Some ''INACTIVE'', ware_house_type = None\<rparr>]\<rparr>))
     = [\<lparr>name = ''Kho Ha Noi'', code = ''HN-01'', address = ''12 Tran Phu'',
          wh_status = Some ''ACTIVE'', ware_house_type = Some ''MAIN''\<rparr>,
        \<lparr>name = ''Kho Sai Gon'', code = ''SG-02'', address = ''3 Le Loi'',
          wh_status = Some ''INACTIVE'', ware_house_type = None\<rparr>]"
  using getFilteredWarehouses_sublist [of toLowerCase_ascii "WarehouseComponent_init\<lparr>wareHouses :=
        [\<lparr>name = ''Kho Ha Noi'', code = ''HN-01'', address = ''12 Tran Phu'',
          wh_status = Some ''ACTIVE'', ware_house_type = Some ''MAIN''\<rparr>,
         \<lparr>name = ''Kho Sai Gon'', code = ''SG-02'', address = ''3 Le Loi'',
          wh_status = Some ''INACTIVE'', ware_house_type = None\<rparr>]\<rparr>"]
  by (simp add: WarehouseComponent_init_def)


section \<open>What goes on the wire\<close>

lemma HttpClient_send_plain: "HttpClient_send req b = emit (HttpSent req) b"
  by (simp add: HttpClient_send_def AppModule_HTTP_INTERCEPTORS_def)

lemma getAll_request:
  "WarehouseService_getAll API_URL (Some p) (Some s) =
     \<lparr>req_method = GET, url = API_URL @ ''warehouse'',
      params = [(''page'', Number_toString p), (''size'', Number_toString s)],
      headers = [], body = NoBody\<rparr>"
  by (simp add: WarehouseService_getAll_def WarehouseService_apiUrl_def HttpParams_set_def)

text \<open>
  Claim C1, as the code has it. No request is given an \<^verbatim>\<open>Authorization\<close> header: the
  client of \<^verbatim>\<open>AppModule\<close> sends every request as it was built, and \<^verbatim>\<open>getAll\<close> builds a GET
  to \<^verbatim>\<open>${BaseURL.API_URL}warehouse\<close> with the query parameters \<^verbatim>\<open>page\<close> and \<^verbatim>\<open>size\<close> and
  no header at all, whatever \<open>localStorage\<close> holds.
\<close>

theorem getAll_sent_without_headers:
  "HttpClient_send req b = b\<lparr>effects := effects b @ [HttpSent req]\<rparr> \<and>
   headers (WarehouseService_getAll API_URL page sz) = [] \<and>
   WarehouseService_getAll API_URL (Some p) (Some s) =
     \<lparr>req_method = GET, url = API_URL @ ''warehouse'',
      params = [(''page'', Number_toString p), (''size'', Number_toString s)],
      headers = [], body = NoBody\<rparr> \<and>
   effects (snd (loadWarehouses API_URL (c, b))) =
     effects b @ [HttpSent (WarehouseService_getAll API_URL (Some (currentPage c)) (Some (pageSize c)))]"
proof -
  have "headers (WarehouseService_getAll API_URL page sz) = []"
    by (simp add: WarehouseService_getAll_def Let_def)
  then show ?thesis
    by (simp add: HttpClient_send_plain emit_def getAll_request loadWarehouses_def)
qed

text \<open>
  The claim as written fails: with the access token \<^verbatim>\<open>tok\<close> stored, the list request of a
  freshly created warehouse page goes out without \<^verbatim>\<open>Authorization: Bearer tok\<close>.
\<close>

theorem getAll_bearer_counterexample:
  "localStorage \<lparr>localStorage = [''access_token'' \<mapsto> ''tok''], effects = []\<rparr> ''access_token''
     = Some ''tok'' \<and>
   effects (snd (loadWarehouses ''http://localhost:8080/api/v1/''
       (WarehouseComponent_init,
        \<lparr>localStorage = [''access_token'' \<mapsto> ''tok''], effects = []\<rparr>)))
     = [HttpSent \<lparr>req_method = GET, url = ''http://localhost:8080/api/v1/warehouse'',
          params = [(''page'', ''0''), (''size'', ''10'')], headers = [], body = NoBody\<rparr>] \<and>
   (''Authorization'', ''Bearer tok'') \<notin>
     set (headers \<lparr>req_method = GET, url = ''http://localhost:8080/api/v1/warehouse'',
          params = [(''page'', ''0''), (''size'', ''10'')], headers = [], body = NoBody\<rparr>)"
  by (simp add: loadWarehouses_def WarehouseComponent_init_def HttpClient_send_plain emit_def
        getAll_request Number_toString_def digit_char_def)

text \<open>
  An error answer to the list request, a 401 included, reaches the error callback of
  \<^verbatim>\<open>loadWarehouses\<close> as it is: one request was sent, none is sent again, and \<open>localStorage\<close>
  is untouched.
\<close>

lemma loadWarehouses_error_answer:
  "subscribe (Inl e) loadWarehouses_next loadWarehouses_error (loadWarehouses API_URL (c, b)) =
     (c\<lparr>loading := False\<rparr>,
      b\<lparr>effects := effects b @
        [HttpSent (WarehouseService_getAll API_URL (Some (currentPage c)) (Some (pageSize c))),
         ConsoleError]\<rparr>)"
  by (simp add: subscribe_def loadWarehouses_def loadWarehouses_error_def HttpClient_send_plain
        emit_def)

text \<open>
  Claim C6. \<^verbatim>\<open>login\<close> is one POST to \<^verbatim>\<open>/api/v1/auth/login\<close> on the host of the service's
  \<^verbatim>\<open>apiUrl\<close>, its body the request object it was given (the submitted username and
  password); the request goes out unchanged, and a successful answer is handed to the
  subscriber as the \<^verbatim>\<open>AuthResponse\<close> it is.
\<close>

theorem login_request:
  "AuthServiceService_login request =
     \<lparr>req_method = POST, url = ''http://localhost:8080'' @ ''/api/v1/auth/login'', params = [],
      headers = [], body = LoginBody request\<rparr> \<and>
   body (AuthServiceService_login \<lparr>username = u, password = pw\<rparr>)
     = LoginBody \<lparr>username = u, password = pw\<rparr> \<and>
   HttpClient_send (AuthServiceService_login request) b =
     b\<lparr>effects := effects b @ [HttpSent (AuthServiceService_login request)]\<rparr> \<and>
   subscribe (Inr (response :: AuthResponse)) next error s = next response s"
  by (simp add: AuthServiceService_login_def AuthServiceService_apiUrl_def HttpClient_send_plain
        emit_def subscribe_def)


section \<open>The login page\<close>

lemma loginForm_invalid_iff:
  "loginForm_invalid c \<longleftrightarrow> form_username c = [] \<or> length (form_password c) < 6"
  by (auto simp: loginForm_invalid_def username_errors_def password_errors_def
        List.map_filter_def Validators_required_def Validators_minLength_def)

lemma loginForm_invalid_submitted [simp]:
  "loginForm_invalid (c\<lparr>submitted := x\<rparr>) = loginForm_invalid c"
  by (simp add: loginForm_invalid_iff)

lemma onSubmit_invalid:
  "loginForm_invalid c \<Longrightarrow>
     onSubmit (c, b) =
       (c\<lparr>submitted := True, form_touched := True\<rparr>,
        b\<lparr>effects := effects b @
             [FormMarkAllAsTouched, ToastrWarning msg_missing ''Thieu thong tin'']\<rparr>)"
  by (simp add: onSubmit_def Let_def emit_def)

lemma onSubmit_valid:
  "\<not> loginForm_invalid c \<Longrightarrow>
     onSubmit (c, b) =
       (c\<lparr>submitted := True, isLoading := True, errorMessage := []\<rparr>,
        b\<lparr>effects := effects b @
             [HttpSent (AuthServiceService_login
                \<lparr>username = form_username c, password = form_password c\<rparr>)]\<rparr>)"
  by (simp add: onSubmit_def Let_def emit_def HttpClient_send_plain)

lemma store_tokens_eq:
  "store_tokens r b =
     b\<lparr>localStorage := (localStorage b)(''access_token'' \<mapsto> access_token r,
                                         ''refresh_token'' \<mapsto> refresh_token r),
       effects := effects b @ [StorageSetItem ''access_token'' (access_token r),
                               StorageSetItem ''refresh_token'' (refresh_token r)]\<rparr>"
  by (simp add: store_tokens_def localStorage_setItem_def emit_def)

text \<open>
  Claim C4. When the username is empty or the password has fewer than 6 characters,
  \<^verbatim>\<open>onSubmit\<close> marks the form, shows the warning and returns: it sends no request, writes
  nothing to \<open>localStorage\<close> and does not raise the loading flag.
\<close>

theorem onSubmit_malformed_no_request:
  "form_username c = [] \<or> length (form_password c) < 6 \<Longrightarrow>
     effects (snd (onSubmit (c, b))) =
       effects b @ [FormMarkAllAsTouched, ToastrWarning msg_missing ''Thieu thong tin''] \<and>
     (\<forall>req. HttpSent req \<notin> set (drop (length (effects b)) (effects (snd (onSubmit (c, b)))))) \<and>
     localStorage (snd (onSubmit (c, b))) = localStorage b \<and>
     isLoading (fst (onSubmit (c, b))) = isLoading c"
  by (simp add: onSubmit_invalid loginForm_invalid_iff)

theorem onSubmit_malformed_no_request_witness:
  "(form_username (LoginComponent_init\<lparr>form_username := ''alice'', form_password := ''abc''\<rparr>) = [] \<or>
    length (form_password
      (LoginComponent_init\<lparr>form_username := ''alice'', form_password := ''abc''\<rparr>)) < 6) \<and>
   effects (snd (onSubmit
      (LoginComponent_init\<lparr>form_username := ''alice'', form_password := ''abc''\<rparr>,
       \<lparr>localStorage = Map.empty, effects = []\<rparr>)))
     = [FormMarkAllAsTouched, ToastrWarning msg_missing ''Thieu thong tin'']"
proof -
  have h: "form_username
             (LoginComponent_init\<lparr>form_username := ''alice'', form_password := ''abc''\<rparr>) = [] \<or>
           length (form_password
             (LoginComponent_init\<lparr>form_username := ''alice'', form_password := ''abc''\<rparr>)) < 6"
    by (simp add: LoginComponent_init_def)
  show ?thesis
    using h onSubmit_malformed_no_request [OF h, of "\<lparr>localStorage = Map.empty, effects = []\<rparr>"]
    by simp
qed





text \<open>
  Claim C3. A valid submission that the backend rejects: \<open>localStorage\<close> is what it was
  before the call, so no token is written and the stored session is unchanged; the error
  is logged and shown to the user (the backend's message when it has one).
\<close>

theorem onSubmit_rejected:
  "\<not> loginForm_invalid c \<Longrightarrow>
     localStorage (snd (subscribe (Inl e) onSubmit_next onSubmit_error (onSubmit (c, b))))
       = localStorage b \<and>
     effects (snd (subscribe (Inl e) onSubmit_next onSubmit_error (onSubmit (c, b)))) =
       effects b @
         [HttpSent (AuthServiceService_login
            \<lparr>username = form_username c, password = form_password c\<rparr>),
          ConsoleError,
          ToastrError (or_default (error_message e) msg_wrong) ''Dang nhap that bai''] \<and>
     session_authenticated
       (snd (subscribe (Inl e) onSubmit_next onSubmit_error (onSubmit (c, b))))
       = session_authenticated b \<and>
     errorMessage (fst (subscribe (Inl e) onSubmit_next onSubmit_error (onSubmit (c, b))))
       = msg_wrong"
  by (simp add: onSubmit_valid subscribe_def onSubmit_error_def emit_def
        session_authenticated_def)

theorem onSubmit_rejected_witness:
  "\<not> loginForm_invalid
       (LoginComponent_init\<lparr>form_username := ''alice'', form_password := ''wrong-pw''\<rparr>) \<and>
   localStorage (snd (subscribe
       (Inl \<lparr>status = 401, error_message = Some ''Invalid credentials''\<rparr>)
       onSubmit_next onSubmit_error
       (onSubmit (LoginComponent_init\<lparr>form_username := ''alice'', form_password := ''wrong-pw''\<rparr>,
                  \<lparr>localStorage = Map.empty, effects = []\<rparr>)))) = Map.empty \<and>
   effects (snd (subscribe
       (Inl \<lparr>status = 401, error_message = Some ''Invalid credentials''\<rparr>)
       onSubmit_next onSubmit_error
       (onSubmit (LoginComponent_init\<lparr>form_username := ''alice'', form_password := ''wrong-pw''\<rparr>,
                  \<lparr>localStorage = Map.empty, effects = []\<rparr>)))) =
     [HttpSent \<lparr>req_method = POST, url = ''http://localhost:8080/api/v1/auth/login'',
        params = [], headers = [],
        body = LoginBody \<lparr>username = ''alice'', password = ''wrong-pw''\<rparr>\<rparr>,
      ConsoleError,
      ToastrError ''Invalid credentials'' ''Dang nhap that bai'']"
proof -
  have h: "\<not> loginForm_invalid
       (LoginComponent_init\<lparr>form_username := ''alice'', form_password := ''wrong-pw''\<rparr>)"
    by (simp add: loginForm_invalid_iff LoginComponent_init_def)
  show ?thesis
    using h onSubmit_rejected [OF h,
      of "\<lparr>status = 401, error_message = Some ''Invalid credentials''\<rparr>"
         "\<lparr>localStorage = Map.empty, effects = []\<rparr>"]
    by (simp add: LoginComponent_init_def AuthServiceService_login_def
          AuthServiceService_apiUrl_def or_default_def)
qed

text \<open>
  Claim C5, as the code has it. Of a login answer the client persists the access token
  and the refresh token, under the keys \<^verbatim>\<open>access_token\<close> and \<^verbatim>\<open>refresh_token\<close>, and reading
  these keys gives the two strings back unchanged. The two expiry fields are not persisted:
  what is stored does not depend on them.
\<close>

theorem store_tokens_two_fields:
  "localStorage (store_tokens r b) =
     (localStorage b)(''access_token'' \<mapsto> access_token r,
                      ''refresh_token'' \<mapsto> refresh_token r) \<and>
   localStorage (store_tokens r b) ''access_token'' = Some (access_token r) \<and>
   localStorage (store_tokens r b) ''refresh_token'' = Some (refresh_token r) \<and>
   store_tokens (r\<lparr>expire_access_token := x, expire_refresh_token := y\<rparr>) b = store_tokens r b"
  by (simp add: store_tokens_eq)

text \<open>
  The claim as written fails: two answers that differ in the expiry of the access token
  leave the same store behind, so no reading of the store returns both of them field for
  field.
\<close>

theorem store_tokens_expiry_counterexample:
  "store_tokens \<lparr>access_token = ''a1'', refresh_token = ''r1'',
                  expire_access_token = ''2026-01-01'', expire_refresh_token = ''2026-02-01'',
                  ip = ''10.0.0.1''\<rparr>
                \<lparr>localStorage = Map.empty, effects = []\<rparr>
   = store_tokens \<lparr>access_token = ''a1'', refresh_token = ''r1'',
                  expire_access_token = ''2027-01-01'', expire_refresh_token = ''2026-02-01'',
                  ip = ''10.0.0.1''\<rparr>
                \<lparr>localStorage = Map.empty, effects = []\<rparr> \<and>
   expire_access_token \<lparr>access_token = ''a1'', refresh_token = ''r1'',
                  expire_access_token = ''2026-01-01'', expire_refresh_token = ''2026-02-01'',
                  ip = ''10.0.0.1''\<rparr>
   \<noteq> expire_access_token \<lparr>access_token = ''a1'', refresh_token = ''r1'',
                  expire_access_token = ''2027-01-01'', expire_refresh_token = ''2026-02-01'',
                  ip = ''10.0.0.1''\<rparr>"
  by (simp add: store_tokens_eq)


section \<open>Logout\<close>

text \<open>
  Claim C8. \<^verbatim>\<open>logout()\<close> twice leaves the same Token Store contents and the same session
  state as \<^verbatim>\<open>logout()\<close> once; after it the Token Store loads nothing and the session is not
  authenticated. (Each call broadcasts, so the history of emitted states grows.)
\<close>

theorem logout_idempotent:
  "token_store (logout (logout p)) = token_store (logout p) \<and>
   current (logout (logout p)) = current (logout p) \<and>
   TokenStore_load (logout p) = None \<and>
   \<not> isAuthenticated (current (logout p)) \<and>
   emitted (logout p) = emitted p @ [\<lparr>isAuthenticated = False, user = None, roles = {}\<rparr>]"
  by (simp add: logout_def setUnauthenticated_def publish_def TokenStore_clear_def
        TokenStore_load_def)

end
